theory Spec2Isabelle
  imports Complex_Main "HOL-Library.Sublist"
begin

section \<open>Decoded payloads\<close>

text \<open>
  The consumer works on whatever \<^verbatim>\<open>json.loads\<close> returns: a dict, a list, a str, an
  int, a float, a bool or \<^verbatim>\<open>None\<close>. A Python float is modelled by the exact value it
  denotes: a rational number, or one of the three special values the JSON decoder also
  produces (\<^verbatim>\<open>Infinity\<close>, \<^verbatim>\<open>-Infinity\<close>, \<^verbatim>\<open>NaN\<close>). Python compares an int with a
  float exactly, so comparing the denoted values is what the interpreter does.

  A dict is an association list; a key is looked up with \<open>map_of\<close>, so the first pair
  with that key is the dict's entry. A Python str is a list of code points; \<open>char\<close>
  holds the code points below 256, which covers every literal of the source.
\<close>

datatype pyfloat = Finite rat | PosInf | NegInf | NaN

datatype json =
    JNull
  | JBool bool
  | JInt int
  | JFloat pyfloat
  | JString string
  | JArray "json list"
  | JObject "(string \<times> json) list"

text \<open>The exceptions that can occur while one message is processed.\<close>

datatype exn =
    JSONDecodeError
  | UnicodeDecodeError
  | TypeError
  | AttributeError
  | InterfaceError
  | DatabaseError

subsection \<open>Numbers\<close>

text \<open>
  \<^verbatim>\<open>isinstance(v, (int, float))\<close> holds for an int, a float and, since \<^verbatim>\<open>bool\<close> is a
  subclass of \<^verbatim>\<open>int\<close>, for \<^verbatim>\<open>True\<close> and \<^verbatim>\<open>False\<close>. \<open>as_num\<close> returns the number
  the value is, or \<open>None\<close> when the \<^verbatim>\<open>isinstance\<close> test fails.
\<close>

datatype pynum = NBool bool | NInt int | NFloat pyfloat

fun as_num :: "json \<Rightarrow> pynum option" where
  "as_num (JBool b) = Some (NBool b)"
| "as_num (JInt i) = Some (NInt i)"
| "as_num (JFloat f) = Some (NFloat f)"
| "as_num JNull = None"
| "as_num (JString s) = None"
| "as_num (JArray xs) = None"
| "as_num (JObject kvs) = None"

text \<open>\<^verbatim>\<open>x < c\<close> and \<^verbatim>\<open>x > c\<close> for a number \<open>x\<close> and an int literal \<open>c\<close>. Every
  comparison with NaN is false.\<close>

fun num_lt :: "pynum \<Rightarrow> int \<Rightarrow> bool" where
  "num_lt (NBool b) c = ((if b then 1 else 0) < c)"
| "num_lt (NInt i) c = (i < c)"
| "num_lt (NFloat (Finite q)) c = (q < of_int c)"
| "num_lt (NFloat PosInf) c = False"
| "num_lt (NFloat NegInf) c = True"
| "num_lt (NFloat NaN) c = False"

fun num_gt :: "pynum \<Rightarrow> int \<Rightarrow> bool" where
  "num_gt (NBool b) c = ((if b then 1 else 0) > c)"
| "num_gt (NInt i) c = (i > c)"
| "num_gt (NFloat (Finite q)) c = (q > of_int c)"
| "num_gt (NFloat PosInf) c = True"
| "num_gt (NFloat NegInf) c = False"
| "num_gt (NFloat NaN) c = False"

subsection \<open>Formatting a number inside an f-string\<close>

definition digit_char :: "nat \<Rightarrow> char" where
  "digit_char d = ''0123456789'' ! d"

fun str_nat :: "nat \<Rightarrow> string" where
  "str_nat n = (if n < 10 then [digit_char n] else str_nat (n div 10) @ [digit_char (n mod 10)])"

declare str_nat.simps [simp del]

definition str_int :: "int \<Rightarrow> string" where
  "str_int i = (if i < 0 then ''-'' @ str_nat (nat (- i)) else str_nat (nat i))"

text \<open>
  \<^verbatim>\<open>f'{x}'\<close> is \<^verbatim>\<open>str(x)\<close>. The shortest-round-trip text of a float is computed by
  the interpreter's runtime and is taken as a parameter \<open>float_repr\<close>.
\<close>

fun format_num :: "(pyfloat \<Rightarrow> string) \<Rightarrow> pynum \<Rightarrow> string" where
  "format_num float_repr (NBool b) = (if b then ''True'' else ''False'')"
| "format_num float_repr (NInt i) = str_int i"
| "format_num float_repr (NFloat f) = float_repr f"

subsection \<open>Membership and lookup\<close>

text \<open>
  \<^verbatim>\<open>key in payload\<close>: a key test on a dict, an element test on a list, a substring
  test on a str, and a \<^verbatim>\<open>TypeError\<close> on a value that is not a container.
\<close>

fun py_in :: "string \<Rightarrow> json \<Rightarrow> exn + bool" where
  "py_in k (JObject kvs) = Inr (map_of kvs k \<noteq> None)"
| "py_in k (JArray xs) = Inr (JString k \<in> set xs)"
| "py_in k (JString s) = Inr (sublist k s)"
| "py_in k JNull = Inl TypeError"
| "py_in k (JBool b) = Inl TypeError"
| "py_in k (JInt i) = Inl TypeError"
| "py_in k (JFloat f) = Inl TypeError"

text \<open>
  \<^verbatim>\<open>payload.get(key)\<close>: the value, \<^verbatim>\<open>None\<close> (here \<open>JNull\<close>) for a missing key, and an
  \<^verbatim>\<open>AttributeError\<close> on anything but a dict. \<open>py_get_default\<close> is
  \<^verbatim>\<open>payload.get(key, default)\<close>.
\<close>

fun py_get :: "json \<Rightarrow> string \<Rightarrow> exn + json" where
  "py_get (JObject kvs) k = Inr (case map_of kvs k of None \<Rightarrow> JNull | Some v \<Rightarrow> v)"
| "py_get JNull k = Inl AttributeError"
| "py_get (JBool b) k = Inl AttributeError"
| "py_get (JInt i) k = Inl AttributeError"
| "py_get (JFloat f) k = Inl AttributeError"
| "py_get (JString s) k = Inl AttributeError"
| "py_get (JArray xs) k = Inl AttributeError"

fun py_get_default :: "json \<Rightarrow> string \<Rightarrow> json \<Rightarrow> exn + json" where
  "py_get_default (JObject kvs) k d = Inr (case map_of kvs k of None \<Rightarrow> d | Some v \<Rightarrow> v)"
| "py_get_default JNull k d = Inl AttributeError"
| "py_get_default (JBool b) k d = Inl AttributeError"
| "py_get_default (JInt i) k d = Inl AttributeError"
| "py_get_default (JFloat f) k d = Inl AttributeError"
| "py_get_default (JString s) k d = Inl AttributeError"
| "py_get_default (JArray xs) k d = Inl AttributeError"

section \<open>The validator\<close>

text \<open>The two non-ASCII code points of the reason strings: U+00E9 and U+00B0.\<close>

definition e_acute :: char where
  "e_acute = CHR 0xE9"

definition degree_sign :: char where
  "degree_sign = CHR 0xB0"

text \<open>
  \<open>validate_payload\<close> of consumer.py, statement by statement. The result is the tuple
  \<^verbatim>\<open>(es_valido, estado, motivo)\<close>, or the exception that leaves the function.
\<close>

definition validate_payload :: "(pyfloat \<Rightarrow> string) \<Rightarrow> json \<Rightarrow> exn + (bool \<times> string \<times> string)" where
  "validate_payload float_repr payload =
    (case py_in ''station_id'' payload of Inl e \<Rightarrow> Inl e | Inr has_station \<Rightarrow>
    (if \<not> has_station then Inr (False, ''invalid'', ''falta station_id'') else
    (case py_in ''temperature_c'' payload of Inl e \<Rightarrow> Inl e | Inr has_temp \<Rightarrow>
    (if \<not> has_temp then Inr (False, ''invalid'', ''falta temperature_c'') else
    (case py_in ''humidity_percent'' payload of Inl e \<Rightarrow> Inl e | Inr has_hum \<Rightarrow>
    (if \<not> has_hum then Inr (False, ''invalid'', ''falta humidity_percent'') else
    (case py_get payload ''temperature_c'' of Inl e \<Rightarrow> Inl e | Inr temp \<Rightarrow>
    (case as_num temp of
       None \<Rightarrow> Inr (False, ''invalid_type'', ''temperatura no es num'' @ [e_acute] @ ''rica'')
     | Some t \<Rightarrow>
    (if num_lt t (- 100) \<or> num_gt t 100 then
       Inr (False, ''out_of_range'',
         ''temperatura '' @ format_num float_repr t @ [degree_sign] @ ''C fuera de rango [-100, 100]'')
     else
    (case py_get payload ''humidity_percent'' of Inl e \<Rightarrow> Inl e | Inr humidity \<Rightarrow>
    (case as_num humidity of
       None \<Rightarrow> Inr (False, ''invalid_type'', ''humedad no es num'' @ [e_acute] @ ''rica'')
     | Some h \<Rightarrow>
    (if num_lt h 0 \<or> num_gt h 100 then
       Inr (False, ''out_of_range'',
         ''humedad '' @ format_num float_repr h @ ''% debe estar [0, 100]'')
     else
    (case py_get payload ''wind_speed_ms'' of Inl e \<Rightarrow> Inl e | Inr wind \<Rightarrow>
    (if wind \<noteq> JNull then
       (case as_num wind of
          None \<Rightarrow> Inr (False, ''invalid_type'', ''viento no es num'' @ [e_acute] @ ''rico'')
        | Some w \<Rightarrow>
         (if num_lt w 0 then
            Inr (False, ''out_of_range'',
              ''viento '' @ format_num float_repr w @ '' m/s no puede ser negativo'')
          else Inr (True, ''ok'', [])))
     else Inr (True, ''ok'', [])))))))))))))))"

section \<open>The store\<close>

text \<open>
  One row of \<^verbatim>\<open>weather_logs\<close>, as the tuple handed to \<^verbatim>\<open>cur.execute\<close>, one field per
  column: the five
  values read from the payload (\<open>JNull\<close> is \<^verbatim>\<open>None\<close>, stored as NULL), the payload
  itself wrapped by \<^verbatim>\<open>Json\<close>, and the final status.
\<close>

record row =
  col_station_id :: json
  col_timestamp :: json
  col_temperature_c :: json
  col_humidity_percent :: json
  col_wind_speed_ms :: json
  col_raw_payload :: json
  col_status :: string

text \<open>
  The connection is the store as the consumer sees it: the rows committed so far
  (\<^verbatim>\<open>autocommit\<close> is on, so a statement that succeeds is committed), whether the
  connection is open, which statements the store accepts (a closed socket, a value that
  cannot be adapted and a violated column type all make \<^verbatim>\<open>execute\<close> raise), and the
  trace of the calls made on it.
\<close>

datatype db_call = Cursor | Execute row | Close

record db_conn =
  db_open :: bool
  accepts :: "row \<Rightarrow> bool"
  rows :: "row list"
  calls :: "db_call list"

text \<open>
  Each call returns the exception it raises, if any, and the connection afterwards.
  \<^verbatim>\<open>cursor()\<close> raises \<^verbatim>\<open>InterfaceError\<close> on a closed connection; \<^verbatim>\<open>execute\<close> raises
  when the store does not accept the statement; closing a client-side cursor sends
  nothing to the server and does not raise.
\<close>

definition cursor :: "db_conn \<Rightarrow> exn option \<times> db_conn" where
  "cursor conn =
    ((if db_open conn then None else Some InterfaceError),
     conn\<lparr>calls := calls conn @ [Cursor]\<rparr>)"

definition execute :: "db_conn \<Rightarrow> row \<Rightarrow> exn option \<times> db_conn" where
  "execute conn r =
    (if accepts conn r
     then (None, conn\<lparr>rows := rows conn @ [r], calls := calls conn @ [Execute r]\<rparr>)
     else (Some DatabaseError, conn\<lparr>calls := calls conn @ [Execute r]\<rparr>))"

definition close_cursor :: "db_conn \<Rightarrow> db_conn" where
  "close_cursor conn = conn\<lparr>calls := calls conn @ [Close]\<rparr>"

text \<open>The statements submitted in a trace of calls are its \<open>Execute\<close> entries.\<close>

fun is_execute :: "db_call \<Rightarrow> bool" where
  "is_execute (Execute r) = True"
| "is_execute Cursor = False"
| "is_execute Close = False"

section \<open>The log\<close>

text \<open>
  A log record is its level and the call site with the values it formats; the rendering
  of the line is the logging library's.
\<close>

datatype level = Info | Warning | Error

datatype event =
    LogReceived nat
  | LogData json
  | LogValidationFailed string
  | LogValidationOk
  | LogAckSent
  | LogInvalidJson exn
  | LogProcessingError exn
  | LogNackSent
  | LogSaved json json string
  | LogInsertError exn

type_synonym log = "(level \<times> event) list"

section \<open>The persister\<close>

text \<open>
  The \<^verbatim>\<open>try\<close> block of \<open>insert_into_db\<close>: the exception that ends it, or the values
  its last log line formats, and the connection afterwards. \<open>now\<close> is
  \<^verbatim>\<open>datetime.now(timezone.utc).isoformat()\<close>.
\<close>

definition insert_try ::
  "string \<Rightarrow> db_conn \<Rightarrow> json \<Rightarrow> string \<Rightarrow> string \<Rightarrow> (exn + (json \<times> json \<times> string)) \<times> db_conn" where
  "insert_try now conn payload status error_reason =
    (case cursor conn of
       (Some e, conn1) \<Rightarrow> (Inl e, conn1)
     | (None, conn1) \<Rightarrow>
    (case py_get payload ''station_id'' of Inl e \<Rightarrow> (Inl e, conn1) | Inr station \<Rightarrow>
    (case py_get_default payload ''timestamp'' (JString now) of Inl e \<Rightarrow> (Inl e, conn1) | Inr ts \<Rightarrow>
    (case py_get payload ''temperature_c'' of Inl e \<Rightarrow> (Inl e, conn1) | Inr temperature \<Rightarrow>
    (case py_get payload ''humidity_percent'' of Inl e \<Rightarrow> (Inl e, conn1) | Inr humidity \<Rightarrow>
    (case py_get payload ''wind_speed_ms'' of Inl e \<Rightarrow> (Inl e, conn1) | Inr wind \<Rightarrow>
    (let final_status = (if status = ''ok'' then status else error_reason) in
    (case execute conn1
        \<lparr>col_station_id = station, col_timestamp = ts, col_temperature_c = temperature,
         col_humidity_percent = humidity, col_wind_speed_ms = wind,
         col_raw_payload = payload, col_status = final_status\<rparr> of
       (Some e, conn2) \<Rightarrow> (Inl e, conn2)
     | (None, conn2) \<Rightarrow> (Inr (station, temperature, final_status), close_cursor conn2)))))))))"

text \<open>
  \<open>insert_into_db\<close>: the \<^verbatim>\<open>try\<close> block, \<^verbatim>\<open>return True\<close> after it, and the handler
  of \<^verbatim>\<open>Exception\<close> (every exception of \<open>exn\<close> is one) that logs and returns
  \<^verbatim>\<open>False\<close>. \<open>Inl\<close> would be an exception that leaves the function.
\<close>

definition insert_into_db ::
  "string \<Rightarrow> db_conn \<Rightarrow> log \<Rightarrow> json \<Rightarrow> string \<Rightarrow> string \<Rightarrow> exn + (bool \<times> db_conn \<times> log)" where
  "insert_into_db now conn lg payload status error_reason =
    (case insert_try now conn payload status error_reason of
       (Inr (station, temperature, final_status), conn') \<Rightarrow>
         Inr (True, conn', lg @ [(Info, LogSaved station temperature final_status)])
     | (Inl e, conn') \<Rightarrow>
         Inr (False, conn', lg @ [(Error, LogInsertError e)]))"

section \<open>The dispatcher\<close>

text \<open>
  What the callback acts on: the frames sent on the channel, the store connection and
  the log. What it reads from its surroundings: \<^verbatim>\<open>json.loads\<close>, the float formatting
  and the clock.
\<close>

datatype frame = BasicAck nat | BasicNack nat bool

record world =
  sent :: "frame list"
  db :: db_conn
  logs :: log

record env =
  env_loads :: "string \<Rightarrow> exn + json"
  env_float_repr :: "pyfloat \<Rightarrow> string"
  env_now :: string

definition basic_ack :: "world \<Rightarrow> nat \<Rightarrow> world" where
  "basic_ack w tag = w\<lparr>sent := sent w @ [BasicAck tag]\<rparr>"

definition basic_nack :: "world \<Rightarrow> nat \<Rightarrow> bool \<Rightarrow> world" where
  "basic_nack w tag requeue = w\<lparr>sent := sent w @ [BasicNack tag requeue]\<rparr>"

definition log_msg :: "level \<Rightarrow> event \<Rightarrow> world \<Rightarrow> world" where
  "log_msg l ev w = w\<lparr>logs := logs w @ [(l, ev)]\<rparr>"

text \<open>
  The \<^verbatim>\<open>try\<close> block of \<open>on_message_received\<close>: the exception that ends it, if any, and
  the world at that point. The boolean \<open>insert_into_db\<close> returns is dropped, as in the
  source.
\<close>

definition process_message :: "env \<Rightarrow> world \<Rightarrow> nat \<Rightarrow> string \<Rightarrow> exn option \<times> world" where
  "process_message ev w tag body =
    (case env_loads ev body of Inl e \<Rightarrow> (Some e, w) | Inr payload \<Rightarrow>
    (let w1 = log_msg Info (LogData payload) w in
    (case validate_payload (env_float_repr ev) payload of Inl e \<Rightarrow> (Some e, w1)
     | Inr (is_valid, status, reason) \<Rightarrow>
    (let w2 = (if \<not> is_valid then log_msg Warning (LogValidationFailed reason) w1
               else log_msg Info LogValidationOk w1) in
    (case insert_into_db (env_now ev) (db w2) (logs w2) payload status reason of
       Inl e \<Rightarrow> (Some e, w2)
     | Inr (stored, conn', lg') \<Rightarrow>
         (None, log_msg Info LogAckSent (basic_ack (w2\<lparr>db := conn', logs := lg'\<rparr>) tag)))))))"

text \<open>
  \<open>on_message_received\<close>: \<open>tag\<close> is \<^verbatim>\<open>method.delivery_tag\<close>. The first handler takes
  \<^verbatim>\<open>json.JSONDecodeError\<close>, the second every other exception.
\<close>

definition on_message_received :: "env \<Rightarrow> world \<Rightarrow> nat \<Rightarrow> string \<Rightarrow> world" where
  "on_message_received ev w tag body =
    (case process_message ev (log_msg Info (LogReceived tag) w) tag body of
       (None, w') \<Rightarrow> w'
     | (Some e, w') \<Rightarrow>
         (if e = JSONDecodeError then basic_ack (log_msg Error (LogInvalidJson e) w') tag
          else log_msg Info LogNackSent
                 (basic_nack (log_msg Error (LogProcessingError e) w') tag False)))"

section \<open>The generator\<close>

text \<open>
  \<open>generate_weather_data\<close> of producer.py. The four values it takes from the random
  source are its input: \<^verbatim>\<open>random.randint(1, 5)\<close> and the three results of
  \<^verbatim>\<open>random.uniform\<close>, each a float and so a rational number.
\<close>

record draws =
  randint_1_5 :: int
  uniform_temp :: rat
  uniform_hum :: rat
  uniform_wind :: rat

text \<open>
  What the library documents of the four calls: \<^verbatim>\<open>randint(a, b)\<close> returns \<open>N\<close> with
  \<open>a \<le> N \<le> b\<close>, \<^verbatim>\<open>uniform(a, b)\<close> returns \<open>N\<close> with \<open>a \<le> N \<le> b\<close>.
\<close>

definition library_draws :: "draws \<Rightarrow> bool" where
  "library_draws d =
    (1 \<le> randint_1_5 d \<and> randint_1_5 d \<le> 5 \<and>
     - 10 \<le> uniform_temp d \<and> uniform_temp d \<le> 40 \<and>
     20 \<le> uniform_hum d \<and> uniform_hum d \<le> 95 \<and>
     0 \<le> uniform_wind d \<and> uniform_wind d \<le> 25)"

text \<open>
  \<^verbatim>\<open>round(x, ndigits)\<close> on a float: the exact value of \<open>x\<close> is rounded to \<open>ndigits\<close>
  decimals, ties to even, and the decimal is converted to the nearest float. The last
  step is the parameter \<open>to_double\<close>.
\<close>

definition round_half_even :: "rat \<Rightarrow> int" where
  "round_half_even y =
    (let f = \<lfloor>y\<rfloor>; d = y - of_int f in
     if d < 1 / 2 then f
     else if 1 / 2 < d then f + 1
     else if even f then f else f + 1)"

definition py_round :: "(rat \<Rightarrow> rat) \<Rightarrow> rat \<Rightarrow> nat \<Rightarrow> rat" where
  "py_round to_double x ndigits =
    to_double (of_int (round_half_even (x * 10 ^ ndigits)) / 10 ^ ndigits)"

text \<open>
  The two properties of rounding to the nearest float that the generator's ranges rest
  on: it is monotone, and it leaves an integer of at most 53 bits as it is.
\<close>

definition nearest_float :: "(rat \<Rightarrow> rat) \<Rightarrow> bool" where
  "nearest_float to_double =
    ((\<forall>x y. x \<le> y \<longrightarrow> to_double x \<le> to_double y) \<and>
     (\<forall>i::int. \<bar>i\<bar> \<le> 2 ^ 53 \<longrightarrow> to_double (of_int i) = of_int i))"

definition generate_weather_data :: "(rat \<Rightarrow> rat) \<Rightarrow> string \<Rightarrow> draws \<Rightarrow> json" where
  "generate_weather_data to_double now d =
    (let station = ''station_'' @ str_int (randint_1_5 d);
         temperature = py_round to_double (uniform_temp d) 2;
         humidity = py_round to_double (uniform_hum d) 2;
         wind = py_round to_double (uniform_wind d) 3
     in JObject
          [(''station_id'', JString station),
           (''timestamp'', JString now),
           (''temperature_c'', JFloat (Finite temperature)),
           (''humidity_percent'', JFloat (Finite humidity)),
           (''wind_speed_ms'', JFloat (Finite wind))])"

section \<open>The specification's reading of the validator\<close>

text \<open>
  The specification speaks of a number lying in a closed range and of a non-negative
  number: \<open>num_ge\<close> and \<open>num_le\<close> are \<^verbatim>\<open>x >= c\<close> and \<^verbatim>\<open>x <= c\<close>.
\<close>

fun num_ge :: "pynum \<Rightarrow> int \<Rightarrow> bool" where
  "num_ge (NBool b) c = ((if b then 1 else 0) \<ge> c)"
| "num_ge (NInt i) c = (i \<ge> c)"
| "num_ge (NFloat (Finite q)) c = (q \<ge> of_int c)"
| "num_ge (NFloat PosInf) c = True"
| "num_ge (NFloat NegInf) c = False"
| "num_ge (NFloat NaN) c = False"

fun num_le :: "pynum \<Rightarrow> int \<Rightarrow> bool" where
  "num_le (NBool b) c = ((if b then 1 else 0) \<le> c)"
| "num_le (NInt i) c = (i \<le> c)"
| "num_le (NFloat (Finite q)) c = (q \<le> of_int c)"
| "num_le (NFloat PosInf) c = False"
| "num_le (NFloat NegInf) c = True"
| "num_le (NFloat NaN) c = False"

text \<open>
  The specification lists the validator's rules in an order. Each rule below follows
  the specification's words, on a dict: it returns the status and the reason reported
  when the payload violates it. A required key must be present; \<open>temperature_c\<close> must
  be numeric and must lie in \<open>[-100, 100]\<close>; \<open>humidity_percent\<close> must be numeric and
  must lie in \<open>[0, 100]\<close>; \<open>wind_speed_ms\<close>, if present, must be numeric and
  non-negative. \<open>field\<close> is \<^verbatim>\<open>payload.get(key)\<close>.
\<close>

definition field :: "(string \<times> json) list \<Rightarrow> string \<Rightarrow> json" where
  "field kvs k = (case map_of kvs k of None \<Rightarrow> JNull | Some v \<Rightarrow> v)"

text \<open>
  The row \<open>insert_into_db\<close> hands to the store for a dict payload: the tuple of its
  \<^verbatim>\<open>cur.execute\<close> call.
\<close>

definition row_of_dict :: "string \<Rightarrow> (string \<times> json) list \<Rightarrow> string \<Rightarrow> row" where
  "row_of_dict now kvs final_status =
    \<lparr>col_station_id = field kvs ''station_id'',
     col_timestamp = (case map_of kvs ''timestamp'' of None \<Rightarrow> JString now | Some v \<Rightarrow> v),
     col_temperature_c = field kvs ''temperature_c'',
     col_humidity_percent = field kvs ''humidity_percent'',
     col_wind_speed_ms = field kvs ''wind_speed_ms'',
     col_raw_payload = JObject kvs,
     col_status = final_status\<rparr>"

type_synonym rule = "(pyfloat \<Rightarrow> string) \<Rightarrow> (string \<times> json) list \<Rightarrow> (string \<times> string) option"

definition rule_station_missing :: rule where
  "rule_station_missing float_repr kvs =
    (if map_of kvs ''station_id'' = None then Some (''invalid'', ''falta station_id'') else None)"

definition rule_temperature_missing :: rule where
  "rule_temperature_missing float_repr kvs =
    (if map_of kvs ''temperature_c'' = None then Some (''invalid'', ''falta temperature_c'')
     else None)"

definition rule_humidity_missing :: rule where
  "rule_humidity_missing float_repr kvs =
    (if map_of kvs ''humidity_percent'' = None then Some (''invalid'', ''falta humidity_percent'')
     else None)"

definition rule_temperature_type :: rule where
  "rule_temperature_type float_repr kvs =
    (if as_num (field kvs ''temperature_c'') = None
     then Some (''invalid_type'', ''temperatura no es num'' @ [e_acute] @ ''rica'') else None)"

definition rule_temperature_range :: rule where
  "rule_temperature_range float_repr kvs =
    (case as_num (field kvs ''temperature_c'') of
       None \<Rightarrow> None
     | Some t \<Rightarrow>
        (if num_ge t (- 100) \<and> num_le t 100 then None
         else
           Some (''out_of_range'',
             ''temperatura '' @ format_num float_repr t @ [degree_sign] @ ''C fuera de rango [-100, 100]'')))"

definition rule_humidity_type :: rule where
  "rule_humidity_type float_repr kvs =
    (if as_num (field kvs ''humidity_percent'') = None
     then Some (''invalid_type'', ''humedad no es num'' @ [e_acute] @ ''rica'') else None)"

definition rule_humidity_range :: rule where
  "rule_humidity_range float_repr kvs =
    (case as_num (field kvs ''humidity_percent'') of
       None \<Rightarrow> None
     | Some h \<Rightarrow>
        (if num_ge h 0 \<and> num_le h 100 then None
         else
           Some (''out_of_range'', ''humedad '' @ format_num float_repr h @ ''% debe estar [0, 100]'')))"

definition rule_wind_type :: rule where
  "rule_wind_type float_repr kvs =
    (if map_of kvs ''wind_speed_ms'' \<noteq> None \<and> as_num (field kvs ''wind_speed_ms'') = None
     then Some (''invalid_type'', ''viento no es num'' @ [e_acute] @ ''rico'') else None)"

definition rule_wind_range :: rule where
  "rule_wind_range float_repr kvs =
    (case as_num (field kvs ''wind_speed_ms'') of
       None \<Rightarrow> None
     | Some w \<Rightarrow>
        (if num_ge w 0 then None
         else
           Some (''out_of_range'', ''viento '' @ format_num float_repr w @ '' m/s no puede ser negativo'')))"

definition rules_in_order :: "rule list" where
  "rules_in_order =
    [rule_station_missing, rule_temperature_missing, rule_humidity_missing,
     rule_temperature_type, rule_temperature_range,
     rule_humidity_type, rule_humidity_range,
     rule_wind_type, rule_wind_range]"

text \<open>
  The amended reading of the wind rule: a \<open>wind_speed_ms\<close> that is present and not
  \<^verbatim>\<open>null\<close> must be numeric. \<open>rules_amended\<close> is the specification's list with this
  rule in the place of \<open>rule_wind_type\<close>. \<open>no_nan\<close> says that none of the three
  measured fields is the float NaN.
\<close>

definition rule_wind_type_not_null :: rule where
  "rule_wind_type_not_null float_repr kvs =
    (if field kvs ''wind_speed_ms'' \<noteq> JNull \<and> as_num (field kvs ''wind_speed_ms'') = None
     then Some (''invalid_type'', ''viento no es num'' @ [e_acute] @ ''rico'') else None)"

definition rules_amended :: "rule list" where
  "rules_amended =
    [rule_station_missing, rule_temperature_missing, rule_humidity_missing,
     rule_temperature_type, rule_temperature_range,
     rule_humidity_type, rule_humidity_range,
     rule_wind_type_not_null, rule_wind_range]"

definition no_nan :: "(string \<times> json) list \<Rightarrow> bool" where
  "no_nan kvs =
    (field kvs ''temperature_c'' \<noteq> JFloat NaN \<and>
     field kvs ''humidity_percent'' \<noteq> JFloat NaN \<and>
     field kvs ''wind_speed_ms'' \<noteq> JFloat NaN)"

text \<open>The report of the earliest violated rule of a list, if any rule is violated.\<close>

fun first_violation :: "rule list \<Rightarrow> rule" where
  "first_violation [] float_repr kvs = None"
| "first_violation (r # rs) float_repr kvs =
    (case r float_repr kvs of Some report \<Rightarrow> Some report | None \<Rightarrow> first_violation rs float_repr kvs)"

definition verdict :: "(string \<times> string) option \<Rightarrow> bool \<times> string \<times> string" where
  "verdict v = (case v of None \<Rightarrow> (True, ''ok'', []) | Some (st, reason) \<Rightarrow> (False, st, reason))"

section \<open>Sample inputs\<close>

text \<open>
  Message bodies and what \<^verbatim>\<open>json.loads\<close> returns on them. \<open>sample_loads\<close> is
  \<^verbatim>\<open>json.loads\<close> on these bodies; the theorems below evaluate it on no other body.
\<close>

definition dq :: char where
  "dq = CHR 0x22"

definition quoted :: "string \<Rightarrow> string" where
  "quoted s = [dq] @ s @ [dq]"

definition body_valid :: string where
  "body_valid =
    ''{'' @ quoted ''station_id'' @ '': '' @ quoted ''station_1'' @ '', ''
      @ quoted ''temperature_c'' @ '': 22.5, ''
      @ quoted ''humidity_percent'' @ '': 55.0, ''
      @ quoted ''wind_speed_ms'' @ '': 3.2}''"

definition payload_valid :: json where
  "payload_valid =
    JObject [(''station_id'', JString ''station_1''),
             (''temperature_c'', JFloat (Finite (45 / 2))),
             (''humidity_percent'', JFloat (Finite 55)),
             (''wind_speed_ms'', JFloat (Finite (16 / 5)))]"

definition body_hot :: string where
  "body_hot =
    ''{'' @ quoted ''station_id'' @ '': '' @ quoted ''station_2'' @ '', ''
      @ quoted ''temperature_c'' @ '': 500, ''
      @ quoted ''humidity_percent'' @ '': 50}''"

definition payload_hot :: json where
  "payload_hot =
    JObject [(''station_id'', JString ''station_2''),
             (''temperature_c'', JInt 500),
             (''humidity_percent'', JInt 50)]"

text \<open>The single byte \<open>0xFF\<close> is not valid UTF-8: decoding the body to text fails.\<close>

definition body_bad_utf8 :: string where
  "body_bad_utf8 = [CHR 0xFF]"

definition sample_loads :: "string \<Rightarrow> exn + json" where
  "sample_loads body =
    (if body = body_valid then Inr payload_valid
     else if body = body_hot then Inr payload_hot
     else if body = ''5'' then Inr (JInt 5)
     else if body = ''[]'' then Inr (JArray [])
     else if body = body_bad_utf8 then Inl UnicodeDecodeError
     else Inl JSONDecodeError)"

definition sample_env :: env where
  "sample_env =
    \<lparr>env_loads = sample_loads, env_float_repr = (\<lambda>f. ''?''),
     env_now = ''2024-05-01T12:00:00+00:00''\<rparr>"

text \<open>An empty store that accepts every row, and one whose every write fails.\<close>

definition healthy_world :: world where
  "healthy_world =
    \<lparr>sent = [], db = \<lparr>db_open = True, accepts = (\<lambda>r. True), rows = [], calls = []\<rparr>, logs = []\<rparr>"

definition failing_world :: world where
  "failing_world =
    \<lparr>sent = [], db = \<lparr>db_open = True, accepts = (\<lambda>r. False), rows = [], calls = []\<rparr>, logs = []\<rparr>"

section \<open>Properties of the validator\<close>

subsection \<open>On a dict the validator reports the earliest violated rule\<close>

lemma num_lt_ge: "n \<noteq> NFloat NaN \<Longrightarrow> num_lt n c = (\<not> num_ge n c)"
  by (cases "(n, c)" rule: num_lt.cases) auto

lemma num_gt_le: "n \<noteq> NFloat NaN \<Longrightarrow> num_gt n c = (\<not> num_le n c)"
  by (cases "(n, c)" rule: num_gt.cases) auto

lemma as_num_not_nan: "as_num v = Some n \<Longrightarrow> v \<noteq> JFloat NaN \<Longrightarrow> n \<noteq> NFloat NaN"
  by (cases v) auto

text \<open>On a number that is not NaN the source's comparisons are the closed ranges.\<close>

lemma range_check:
  assumes "as_num v = Some n" and "v \<noteq> JFloat NaN"
  shows "(num_lt n lo \<or> num_gt n hi) = (\<not> (num_ge n lo \<and> num_le n hi))"
    and "num_lt n lo = (\<not> num_ge n lo)"
  using as_num_not_nan [OF assms] by (simp_all add: num_lt_ge num_gt_le)

lemma validate_payload_dict:
  assumes "no_nan kvs"
  shows "validate_payload fr (JObject kvs) = Inr (verdict (first_violation rules_amended fr kvs))"
proof -
  have t: "field kvs ''temperature_c'' \<noteq> JFloat NaN"
    and h: "field kvs ''humidity_percent'' \<noteq> JFloat NaN"
    and w: "field kvs ''wind_speed_ms'' \<noteq> JFloat NaN"
    using assms by (simp_all add: no_nan_def)
  show ?thesis
    using range_check [OF _ t] range_check [OF _ h] range_check(2) [OF _ w]
    by (auto simp: validate_payload_def rules_amended_def verdict_def field_def
      rule_station_missing_def rule_temperature_missing_def rule_humidity_missing_def
      rule_temperature_type_def rule_temperature_range_def rule_humidity_type_def
      rule_humidity_range_def rule_wind_type_not_null_def rule_wind_range_def
      split: option.splits)
qed

lemma first_violation_earliest:
  assumes "\<forall>r' \<in> set before. r' fr kvs = None" and "r fr kvs = Some report"
  shows "first_violation (before @ r # after) fr kvs = Some report"
  using assms by (induction before) auto

lemma num_ge_not_lt: "num_ge n c \<Longrightarrow> \<not> num_lt n c"
  by (cases "(n, c)" rule: num_lt.cases) auto

lemma num_le_not_gt: "num_le n c \<Longrightarrow> \<not> num_gt n c"
  by (cases "(n, c)" rule: num_gt.cases) auto

text \<open>
  Claim C5. A dict that has \<open>station_id\<close>, a numeric \<open>temperature_c\<close> in \<open>[-100, 100]\<close>,
  a numeric \<open>humidity_percent\<close> in \<open>[0, 100]\<close>, and a \<open>wind_speed_ms\<close> that is absent
  or numeric and at least 0, is accepted with status \<open>ok\<close> and an empty reason.
\<close>

theorem validate_payload_accepts_valid:
  assumes "map_of kvs ''station_id'' = Some s"
    and "map_of kvs ''temperature_c'' = Some t" and "as_num t = Some tn"
    and "num_ge tn (- 100)" and "num_le tn 100"
    and "map_of kvs ''humidity_percent'' = Some h" and "as_num h = Some hn"
    and "num_ge hn 0" and "num_le hn 100"
    and "map_of kvs ''wind_speed_ms'' = None \<or>
         (\<exists>w wn. map_of kvs ''wind_speed_ms'' = Some w \<and> as_num w = Some wn \<and> num_ge wn 0)"
  shows "validate_payload fr (JObject kvs) = Inr (True, ''ok'', [])"
  using assms
  by (auto simp: validate_payload_def dest: num_ge_not_lt num_le_not_gt)

theorem validate_payload_accepts_valid_witness:
  "map_of [(''station_id'', JString ''station_1''), (''temperature_c'', JFloat (Finite (45 / 2))),
           (''humidity_percent'', JFloat (Finite 55)), (''wind_speed_ms'', JFloat (Finite (16 / 5)))]
     ''station_id'' = Some (JString ''station_1'')
   \<and> as_num (JFloat (Finite (45 / 2))) = Some (NFloat (Finite (45 / 2)))
   \<and> num_ge (NFloat (Finite (45 / 2))) (- 100) \<and> num_le (NFloat (Finite (45 / 2))) 100
   \<and> as_num (JFloat (Finite 55)) = Some (NFloat (Finite 55))
   \<and> num_ge (NFloat (Finite 55)) 0 \<and> num_le (NFloat (Finite 55)) 100
   \<and> as_num (JFloat (Finite (16 / 5))) = Some (NFloat (Finite (16 / 5)))
   \<and> num_ge (NFloat (Finite (16 / 5))) 0
   \<and> validate_payload (\<lambda>f. ''?'') payload_valid = Inr (True, ''ok'', [])"
  using validate_payload_accepts_valid
    [of "[(''station_id'', JString ''station_1''), (''temperature_c'', JFloat (Finite (45 / 2))),
          (''humidity_percent'', JFloat (Finite 55)), (''wind_speed_ms'', JFloat (Finite (16 / 5)))]"
        "JString ''station_1''" "JFloat (Finite (45 / 2))" "NFloat (Finite (45 / 2))"
        "JFloat (Finite 55)" "NFloat (Finite 55)" "\<lambda>f. ''?''"]
  by (simp add: payload_valid_def)

text \<open>
  Claim C6, as stated, fails on the specification's rules (\<open>rules_in_order\<close>). A NaN
  temperature does not lie in \<open>[-100, 100]\<close>, so with a non-numeric humidity the
  earliest violated rule is the temperature range; the source's comparisons are both
  false on NaN and the validator reports the humidity type. And a \<open>wind_speed_ms\<close>
  that is present and \<^verbatim>\<open>null\<close> violates the wind type rule, the only rule violated,
  yet the validator accepts the payload.
\<close>

theorem validate_payload_not_first_spec_rule:
  "first_violation rules_in_order (\<lambda>f. ''nan'')
     [(''station_id'', JString ''s''), (''temperature_c'', JFloat NaN),
      (''humidity_percent'', JString ''wet'')]
     = Some (''out_of_range'', ''temperatura nan'' @ [degree_sign] @ ''C fuera de rango [-100, 100]'')
   \<and> validate_payload (\<lambda>f. ''nan'')
        (JObject [(''station_id'', JString ''s''), (''temperature_c'', JFloat NaN),
                  (''humidity_percent'', JString ''wet'')])
     = Inr (False, ''invalid_type'', ''humedad no es num'' @ [e_acute] @ ''rica'')
   \<and> first_violation rules_in_order (\<lambda>f. ''nan'')
        [(''station_id'', JString ''s''), (''temperature_c'', JInt 20),
         (''humidity_percent'', JInt 50), (''wind_speed_ms'', JNull)]
     = Some (''invalid_type'', ''viento no es num'' @ [e_acute] @ ''rico'')
   \<and> validate_payload (\<lambda>f. ''nan'')
        (JObject [(''station_id'', JString ''s''), (''temperature_c'', JInt 20),
                  (''humidity_percent'', JInt 50), (''wind_speed_ms'', JNull)])
     = Inr (True, ''ok'', [])"
  by (simp add: validate_payload_def rules_in_order_def field_def
      rule_station_missing_def rule_temperature_missing_def rule_humidity_missing_def
      rule_temperature_type_def rule_temperature_range_def rule_humidity_type_def
      rule_humidity_range_def rule_wind_type_def rule_wind_range_def)

text \<open>
  Claim C6, amended. With the wind type rule read as "a \<open>wind_speed_ms\<close> that is
  present and not \<^verbatim>\<open>null\<close> must be numeric" (\<open>rules_amended\<close>), and for every dict
  whose \<open>temperature_c\<close>, \<open>humidity_percent\<close> and \<open>wind_speed_ms\<close> are not NaN: the
  rules are checked in the order missing \<open>station_id\<close>, missing \<open>temperature_c\<close>,
  missing \<open>humidity_percent\<close>, temperature type, temperature range, humidity type,
  humidity range, wind type, wind range, and the earliest violated rule alone decides:
  when a rule is violated and no rule before it is, the validator returns that rule's
  status and reason, whatever the later rules say.
\<close>

theorem validate_payload_first_violation_wins:
  assumes "no_nan kvs"
    and "rules_amended = before @ r # after"
    and "\<forall>r' \<in> set before. r' fr kvs = None"
    and "r fr kvs = Some (st, reason)"
  shows "validate_payload fr (JObject kvs) = Inr (False, st, reason)"
proof -
  have "first_violation rules_amended fr kvs = Some (st, reason)"
    unfolding assms(2) using assms(3,4) by (rule first_violation_earliest)
  then show ?thesis
    by (simp add: validate_payload_dict [OF assms(1)] verdict_def)
qed

text \<open>
  The claim's example: a payload without \<open>station_id\<close> whose \<open>temperature_c\<close> is not a
  number violates the first and the fourth rule, and is reported as \<open>invalid\<close>.
\<close>

theorem validate_payload_first_violation_wins_witness:
  "no_nan [(''temperature_c'', JString ''hot''), (''humidity_percent'', JInt 50)]
   \<and> rules_amended = [] @ rule_station_missing # tl rules_amended
   \<and> rule_station_missing (\<lambda>f. ''?'')
        [(''temperature_c'', JString ''hot''), (''humidity_percent'', JInt 50)]
       = Some (''invalid'', ''falta station_id'')
   \<and> rule_temperature_type (\<lambda>f. ''?'')
        [(''temperature_c'', JString ''hot''), (''humidity_percent'', JInt 50)]
       = Some (''invalid_type'', ''temperatura no es num'' @ [e_acute] @ ''rica'')
   \<and> validate_payload (\<lambda>f. ''?'')
        (JObject [(''temperature_c'', JString ''hot''), (''humidity_percent'', JInt 50)])
       = Inr (False, ''invalid'', ''falta station_id'')"
  using validate_payload_first_violation_wins
    [of "[(''temperature_c'', JString ''hot''), (''humidity_percent'', JInt 50)]"
        "[]" rule_station_missing "tl rules_amended" "\<lambda>f. ''?''"
        "''invalid''" "''falta station_id''"]
  by (simp add: rules_amended_def rule_station_missing_def rule_temperature_type_def field_def
      no_nan_def)




subsection \<open>Booleans\<close>

lemma bool_temperature:
  "validate_payload fr (JObject ((''temperature_c'', JBool b) # kvs)) =
   validate_payload fr (JObject ((''temperature_c'', JInt (if b then 1 else 0)) # kvs))"
  by (cases b) (simp_all add: validate_payload_def cong: if_cong option.case_cong)

lemma bool_humidity:
  "validate_payload fr (JObject ((''humidity_percent'', JBool b) # kvs)) =
   validate_payload fr (JObject ((''humidity_percent'', JInt (if b then 1 else 0)) # kvs))"
  by (cases b) (simp_all add: validate_payload_def cong: if_cong option.case_cong)

lemma bool_wind:
  "validate_payload fr (JObject ((''wind_speed_ms'', JBool b) # kvs)) =
   validate_payload fr (JObject ((''wind_speed_ms'', JInt (if b then 1 else 0)) # kvs))"
  by (cases b) (simp_all add: validate_payload_def cong: if_cong option.case_cong)

lemma bools_ok:
  assumes "map_of kvs ''station_id'' \<noteq> None"
    and "map_of kvs ''temperature_c'' = Some (JBool bt)"
    and "map_of kvs ''humidity_percent'' = Some (JBool bh)"
    and "map_of kvs ''wind_speed_ms'' = None \<or> (\<exists>bw. map_of kvs ''wind_speed_ms'' = Some (JBool bw))"
  shows "validate_payload fr (JObject kvs) = Inr (True, ''ok'', [])"
proof -
  have t: "\<not> num_lt (NBool bt) (- 100)" "\<not> num_gt (NBool bt) 100" by simp_all
  have h: "\<not> num_lt (NBool bh) 0" "\<not> num_gt (NBool bh) 100" by simp_all
  have w: "\<not> num_lt (NBool bw) 0" for bw by simp
  from assms(4) show ?thesis
  proof
    assume "map_of kvs ''wind_speed_ms'' = None"
    with assms(1-3) t h show ?thesis
      by (simp add: validate_payload_def del: num_lt.simps num_gt.simps)
  next
    assume "\<exists>bw. map_of kvs ''wind_speed_ms'' = Some (JBool bw)"
    then obtain bw where "map_of kvs ''wind_speed_ms'' = Some (JBool bw)" ..
    with assms(1-3) t h w [of bw] show ?thesis
      by (simp add: validate_payload_def del: num_lt.simps num_gt.simps)
  qed
qed

text \<open>
  Claim C10. A boolean passes the numeric type check. Setting \<open>temperature_c\<close>,
  \<open>humidity_percent\<close> or \<open>wind_speed_ms\<close> of any dict to \<^verbatim>\<open>True\<close> or \<^verbatim>\<open>False\<close> is
  validated exactly as setting it to the int 1 or 0, so the range check is applied to
  the boolean's numeric value; and a dict with \<open>station_id\<close> whose temperature and
  humidity are booleans, and whose wind speed is absent or a boolean, is accepted as
  \<open>ok\<close>.
\<close>

theorem validate_payload_bool_is_number:
  "(k \<in> {''temperature_c'', ''humidity_percent'', ''wind_speed_ms''} \<longrightarrow>
      validate_payload fr (JObject ((k, JBool b) # kvs)) =
      validate_payload fr (JObject ((k, JInt (if b then 1 else 0)) # kvs)))
   \<and> (map_of kvs ''station_id'' \<noteq> None \<and>
      map_of kvs ''temperature_c'' = Some (JBool bt) \<and>
      map_of kvs ''humidity_percent'' = Some (JBool bh) \<and>
      (map_of kvs ''wind_speed_ms'' = None \<or> (\<exists>bw. map_of kvs ''wind_speed_ms'' = Some (JBool bw)))
      \<longrightarrow> validate_payload fr (JObject kvs) = Inr (True, ''ok'', []))"
proof (intro conjI impI)
  assume "k \<in> {''temperature_c'', ''humidity_percent'', ''wind_speed_ms''}"
  then consider "k = ''temperature_c''" | "k = ''humidity_percent''" | "k = ''wind_speed_ms''"
    by blast
  then show "validate_payload fr (JObject ((k, JBool b) # kvs)) =
      validate_payload fr (JObject ((k, JInt (if b then 1 else 0)) # kvs))"
  proof cases
    case 1 then show ?thesis by (simp only: bool_temperature)
  next
    case 2 then show ?thesis by (simp only: bool_humidity)
  next
    case 3 then show ?thesis by (simp only: bool_wind)
  qed
next
  assume "map_of kvs ''station_id'' \<noteq> None \<and>
      map_of kvs ''temperature_c'' = Some (JBool bt) \<and>
      map_of kvs ''humidity_percent'' = Some (JBool bh) \<and>
      (map_of kvs ''wind_speed_ms'' = None \<or> (\<exists>bw. map_of kvs ''wind_speed_ms'' = Some (JBool bw)))"
  then show "validate_payload fr (JObject kvs) = Inr (True, ''ok'', [])"
    using bools_ok by blast
qed

text \<open>The claim's example: station \<open>s\<close>, temperature \<^verbatim>\<open>true\<close>, humidity \<^verbatim>\<open>true\<close>.\<close>

theorem validate_payload_bool_is_number_witness:
  "''temperature_c'' \<in> {''temperature_c'', ''humidity_percent'', ''wind_speed_ms''}
   \<and> validate_payload (\<lambda>f. ''?'')
        (JObject ((''temperature_c'', JBool True) #
                  [(''station_id'', JString ''s''), (''temperature_c'', JBool True),
                   (''humidity_percent'', JBool True)])) =
      validate_payload (\<lambda>f. ''?'')
        (JObject ((''temperature_c'', JInt 1) #
                  [(''station_id'', JString ''s''), (''temperature_c'', JBool True),
                   (''humidity_percent'', JBool True)]))
   \<and> map_of [(''station_id'', JString ''s''), (''temperature_c'', JBool True),
             (''humidity_percent'', JBool True)] ''station_id'' \<noteq> None
   \<and> map_of [(''station_id'', JString ''s''), (''temperature_c'', JBool True),
             (''humidity_percent'', JBool True)] ''wind_speed_ms'' = None
   \<and> validate_payload (\<lambda>f. ''?'')
        (JObject [(''station_id'', JString ''s''), (''temperature_c'', JBool True),
                  (''humidity_percent'', JBool True)]) = Inr (True, ''ok'', [])"
  using validate_payload_bool_is_number
    [of "''temperature_c''" "\<lambda>f. ''?''" True
        "[(''station_id'', JString ''s''), (''temperature_c'', JBool True),
          (''humidity_percent'', JBool True)]" True True]
  by simp

section \<open>Properties of the persister\<close>

lemma insert_try_closed:
  "\<not> db_open conn \<Longrightarrow>
   insert_try now conn payload st reason =
     (Inl InterfaceError, conn\<lparr>calls := calls conn @ [Cursor]\<rparr>)"
  by (simp add: insert_try_def cursor_def)

lemma insert_try_not_dict:
  "db_open conn \<Longrightarrow> py_get payload ''station_id'' = Inl e \<Longrightarrow>
   insert_try now conn payload st reason = (Inl e, conn\<lparr>calls := calls conn @ [Cursor]\<rparr>)"
  by (simp add: insert_try_def cursor_def)

lemma insert_try_dict:
  "db_open conn \<Longrightarrow>
   insert_try now conn (JObject kvs) st reason =
    (let r = row_of_dict now kvs (if st = ''ok'' then st else reason) in
     if accepts conn r
     then (Inr (field kvs ''station_id'', field kvs ''temperature_c'', col_status r),
           conn\<lparr>rows := rows conn @ [r], calls := calls conn @ [Cursor, Execute r, Close]\<rparr>)
     else (Inl DatabaseError, conn\<lparr>calls := calls conn @ [Cursor, Execute r]\<rparr>))"
  by (simp add: insert_try_def cursor_def execute_def close_cursor_def row_of_dict_def field_def
      Let_def)

lemma py_get_cases:
  "(\<exists>kvs. payload = JObject kvs) \<or> py_get payload k = Inl AttributeError"
  by (cases payload) simp_all

lemma insert_into_db_closed:
  "\<not> db_open conn \<Longrightarrow>
   insert_into_db now conn lg payload st reason =
     Inr (False, conn\<lparr>calls := calls conn @ [Cursor]\<rparr>, lg @ [(Error, LogInsertError InterfaceError)])"
  by (simp add: insert_into_db_def insert_try_closed)

lemma insert_into_db_not_dict:
  "db_open conn \<Longrightarrow> py_get payload ''station_id'' = Inl e \<Longrightarrow>
   insert_into_db now conn lg payload st reason =
     Inr (False, conn\<lparr>calls := calls conn @ [Cursor]\<rparr>, lg @ [(Error, LogInsertError e)])"
  by (simp add: insert_into_db_def insert_try_not_dict)

lemma insert_into_db_stored:
  "db_open conn \<Longrightarrow> r = row_of_dict now kvs (if st = ''ok'' then st else reason) \<Longrightarrow>
   accepts conn r \<Longrightarrow>
   insert_into_db now conn lg (JObject kvs) st reason =
     Inr (True,
          conn\<lparr>rows := rows conn @ [r], calls := calls conn @ [Cursor, Execute r, Close]\<rparr>,
          lg @ [(Info, LogSaved (field kvs ''station_id'') (field kvs ''temperature_c'') (col_status r))])"
  by (simp add: insert_into_db_def insert_try_dict Let_def)

lemma insert_into_db_rejected:
  "db_open conn \<Longrightarrow> r = row_of_dict now kvs (if st = ''ok'' then st else reason) \<Longrightarrow>
   \<not> accepts conn r \<Longrightarrow>
   insert_into_db now conn lg (JObject kvs) st reason =
     Inr (False, conn\<lparr>calls := calls conn @ [Cursor, Execute r]\<rparr>,
          lg @ [(Error, LogInsertError DatabaseError)])"
  by (simp add: insert_into_db_def insert_try_dict Let_def)

lemma insert_into_db_returns:
  "\<exists>stored conn' lg'. insert_into_db now conn lg payload st reason = Inr (stored, conn', lg')"
proof (cases "insert_try now conn payload st reason")
  case (Pair res conn')
  show ?thesis
  proof (cases res)
    case (Inl e)
    with Pair have "insert_into_db now conn lg payload st reason =
        Inr (False, conn', lg @ [(Error, LogInsertError e)])"
      by (simp add: insert_into_db_def)
    then show ?thesis by blast
  next
    case (Inr v)
    obtain a b c where "v = (a, b, c)" by (cases v)
    with Inr Pair have "insert_into_db now conn lg payload st reason =
        Inr (True, conn', lg @ [(Info, LogSaved a b c)])"
      by (simp add: insert_into_db_def)
    then show ?thesis by blast
  qed
qed

lemma row_of_dict_cols:
  "col_raw_payload (row_of_dict now kvs final_status) = JObject kvs"
  "col_status (row_of_dict now kvs final_status) = final_status"
  by (simp_all add: row_of_dict_def)

lemma not_dict_get:
  "\<forall>kvs. payload \<noteq> JObject kvs \<Longrightarrow> py_get payload k = Inl AttributeError"
  by (cases payload) simp_all

text \<open>
  Claim C8, as stated, fails: the persister does not write a row on every input whose
  store write would succeed. On an open connection to a store that accepts every row,
  a list payload makes \<^verbatim>\<open>payload.get\<close> raise before any statement is submitted: the
  function returns false with no row written and no store failure.
\<close>

theorem insert_into_db_list_payload:
  "insert_into_db ''2024-05-01T12:00:00+00:00'' (db healthy_world) [] (JArray [])
      ''invalid'' ''falta station_id''
    = Inr (False, (db healthy_world)\<lparr>calls := [Cursor]\<rparr>, [(Error, LogInsertError AttributeError)])
   \<and> rows ((db healthy_world)\<lparr>calls := [Cursor]\<rparr>) = []
   \<and> accepts (db healthy_world) = (\<lambda>r. True)"
  by (simp add: healthy_world_def insert_into_db_not_dict)

text \<open>
  Claim C8, amended. No exception leaves \<open>insert_into_db\<close>: on every input it returns a
  boolean. It returns true exactly when the connection is open, the payload is a JSON
  object and the store accepts the row built from it; it has then written exactly that
  one row, holding the payload and the final status, whatever the status is (valid or
  invalid alike). In every other case (a store failure, or a payload that is not a JSON
  object) it writes no row, logs one error record and returns false. In all cases at
  most one statement is submitted to the store: there is no retry.
\<close>

theorem insert_into_db_never_raises:
  "\<exists>stored conn' lg' cs.
     insert_into_db now conn lg payload st reason = Inr (stored, conn', lg')
   \<and> stored =
       (db_open conn \<and>
        (\<exists>kvs. payload = JObject kvs
           \<and> accepts conn (row_of_dict now kvs (if st = ''ok'' then st else reason))))
   \<and> calls conn' = calls conn @ cs \<and> length (filter is_execute cs) \<le> 1
   \<and> (if stored
       then (\<exists>kvs r. payload = JObject kvs
              \<and> r = row_of_dict now kvs (if st = ''ok'' then st else reason)
              \<and> rows conn' = rows conn @ [r]
              \<and> col_raw_payload r = payload
              \<and> col_status r = (if st = ''ok'' then st else reason)
              \<and> lg' = lg @ [(Info, LogSaved (field kvs ''station_id'')
                                 (field kvs ''temperature_c'') (col_status r))])
       else rows conn' = rows conn \<and> (\<exists>e. lg' = lg @ [(Error, LogInsertError e)]))"
proof (cases "db_open conn")
  case False
  show ?thesis
    apply (rule exI [of _ False])
    apply (rule exI [of _ "conn\<lparr>calls := calls conn @ [Cursor]\<rparr>"])
    apply (rule exI [of _ "lg @ [(Error, LogInsertError InterfaceError)]"])
    apply (rule exI [of _ "[Cursor]"])
    apply (simp add: insert_into_db_closed [OF False] False)
    done
next
  case opened: True
  show ?thesis
  proof (cases "\<exists>kvs. payload = JObject kvs")
    case False
    then have nd: "\<forall>kvs. payload \<noteq> JObject kvs" by blast
    then have ng: "py_get payload ''station_id'' = Inl AttributeError"
      by (rule not_dict_get)
    show ?thesis
      apply (rule exI [of _ False])
      apply (rule exI [of _ "conn\<lparr>calls := calls conn @ [Cursor]\<rparr>"])
      apply (rule exI [of _ "lg @ [(Error, LogInsertError AttributeError)]"])
      apply (rule exI [of _ "[Cursor]"])
      apply (simp add: insert_into_db_not_dict [OF opened ng] nd)
      done
  next
    case True
    then obtain kvs where p: "payload = JObject kvs" ..
    define r where "r = row_of_dict now kvs (if st = ''ok'' then st else reason)"
    show ?thesis
    proof (cases "accepts conn r")
      case acc: True
      show ?thesis
        unfolding p
        apply (rule exI [of _ True])
        apply (rule exI [of _ "conn\<lparr>rows := rows conn @ [r], calls := calls conn @ [Cursor, Execute r, Close]\<rparr>"])
        apply (rule exI [of _ "lg @ [(Info, LogSaved (field kvs ''station_id'') (field kvs ''temperature_c'') (col_status r))]"])
        apply (rule exI [of _ "[Cursor, Execute r, Close]"])
        apply (insert acc)
        apply (auto simp: insert_into_db_stored [OF opened r_def acc] opened r_def
                 row_of_dict_cols split: if_splits)
        done
    next
      case rej: False
      show ?thesis
        unfolding p
        apply (rule exI [of _ False])
        apply (rule exI [of _ "conn\<lparr>calls := calls conn @ [Cursor, Execute r]\<rparr>"])
        apply (rule exI [of _ "lg @ [(Error, LogInsertError DatabaseError)]"])
        apply (rule exI [of _ "[Cursor, Execute r]"])
        apply (insert rej)
        apply (auto simp: insert_into_db_rejected [OF opened r_def rej] opened r_def
                 split: if_splits)
        done
    qed
  qed
qed

text \<open>
  The specification's out-of-range reading on a store that accepts it: the persister
  returns true and the store holds exactly one row.
\<close>

theorem insert_into_db_never_raises_witness:
  "\<exists>conn' lg'.
     insert_into_db ''2024-05-01T12:00:00+00:00'' (db healthy_world) [] payload_hot
        ''out_of_range'' ''temperatura 500'' = Inr (True, conn', lg')
   \<and> length (rows conn') = 1"
proof -
  let ?kvs = "[(''station_id'', JString ''station_2''), (''temperature_c'', JInt 500),
               (''humidity_percent'', JInt 50)]"
  from insert_into_db_never_raises
    [of "''2024-05-01T12:00:00+00:00''" "db healthy_world" "[]" payload_hot
        "''out_of_range''" "''temperatura 500''"]
  obtain stored conn' lg' where
    ins: "insert_into_db ''2024-05-01T12:00:00+00:00'' (db healthy_world) [] payload_hot
        ''out_of_range'' ''temperatura 500'' = Inr (stored, conn', lg')"
    and st: "stored =
       (db_open (db healthy_world) \<and>
        (\<exists>kvs. payload_hot = JObject kvs
           \<and> accepts (db healthy_world)
               (row_of_dict ''2024-05-01T12:00:00+00:00'' kvs
                  (if ''out_of_range'' = ''ok'' then ''out_of_range'' else ''temperatura 500''))))"
    and wr: "if stored
       then (\<exists>kvs r. payload_hot = JObject kvs
              \<and> r = row_of_dict ''2024-05-01T12:00:00+00:00'' kvs
                    (if ''out_of_range'' = ''ok'' then ''out_of_range'' else ''temperatura 500'')
              \<and> rows conn' = rows (db healthy_world) @ [r]
              \<and> col_raw_payload r = payload_hot
              \<and> col_status r = (if ''out_of_range'' = ''ok'' then ''out_of_range'' else ''temperatura 500'')
              \<and> lg' = [] @ [(Info, LogSaved (field kvs ''station_id'')
                                 (field kvs ''temperature_c'') (col_status r))])
       else rows conn' = rows (db healthy_world)
            \<and> (\<exists>e. lg' = [] @ [(Error, LogInsertError e)])"
    by blast
  from st have stored: "stored"
    by (simp add: healthy_world_def payload_hot_def)
  with wr have len: "length (rows conn') = 1"
    by (auto simp: healthy_world_def)
  from ins stored have "insert_into_db ''2024-05-01T12:00:00+00:00'' (db healthy_world) []
      payload_hot ''out_of_range'' ''temperatura 500'' = Inr (True, conn', lg')"
    by simp
  with len show ?thesis by blast
qed

section \<open>Properties of the dispatcher\<close>

lemma sample_loads_valid: "sample_loads body_valid = Inr payload_valid"
  by (simp add: sample_loads_def)

lemma sample_loads_scalar: "sample_loads ''5'' = Inr (JInt 5)"
  by (simp add: sample_loads_def body_valid_def body_hot_def body_bad_utf8_def quoted_def)

lemma sample_loads_list: "sample_loads ''[]'' = Inr (JArray [])"
  by (simp add: sample_loads_def body_valid_def body_hot_def body_bad_utf8_def quoted_def)



lemma payload_valid_ok: "validate_payload fr payload_valid = Inr (True, ''ok'', [])"
  by (simp add: payload_valid_def validate_payload_def)

text \<open>
  The path through the \<^verbatim>\<open>try\<close> block on which nothing raises: decode, validate,
  persist, ack.
\<close>

lemma on_message_received_decoded:
  assumes "env_loads ev body = Inr payload"
    and "validate_payload (env_float_repr ev) payload = Inr (is_valid, st, reason)"
    and "insert_into_db (env_now ev) (db w)
        (logs w @ [(Info, LogReceived tag), (Info, LogData payload),
                   (if is_valid then (Info, LogValidationOk)
                    else (Warning, LogValidationFailed reason))])
        payload st reason = Inr (stored, conn', lg')"
  shows "on_message_received ev w tag body =
        \<lparr>sent = sent w @ [BasicAck tag], db = conn', logs = lg' @ [(Info, LogAckSent)]\<rparr>"
  using assms
  by (cases is_valid)
     (simp_all add: on_message_received_def process_message_def log_msg_def basic_ack_def)

text \<open>
  Whatever happens inside the callback, it sends exactly one frame, for the delivery tag
  of its message: an ack or a reject without requeue.
\<close>

lemma on_message_received_one_frame:
  "sent (on_message_received ev w tag body) = sent w @ [BasicAck tag]
   \<or> sent (on_message_received ev w tag body) = sent w @ [BasicNack tag False]"
proof (cases "env_loads ev body")
  case (Inl e)
  then show ?thesis
    by (simp add: on_message_received_def process_message_def log_msg_def basic_ack_def
        basic_nack_def)
next
  case loaded: (Inr payload)
  show ?thesis
  proof (cases "validate_payload (env_float_repr ev) payload")
    case (Inl e)
    with loaded show ?thesis
      by (simp add: on_message_received_def process_message_def log_msg_def basic_ack_def
          basic_nack_def)
  next
    case (Inr res)
    obtain is_valid st reason where res: "res = (is_valid, st, reason)" by (cases res)
    obtain stored conn' lg' where
      "insert_into_db (env_now ev) (db w)
        (logs w @ [(Info, LogReceived tag), (Info, LogData payload),
                   (if is_valid then (Info, LogValidationOk)
                    else (Warning, LogValidationFailed reason))])
        payload st reason = Inr (stored, conn', lg')"
      using insert_into_db_returns by blast
    with loaded Inr res have "on_message_received ev w tag body =
        \<lparr>sent = sent w @ [BasicAck tag], db = conn', logs = lg' @ [(Info, LogAckSent)]\<rparr>"
      by (simp add: on_message_received_decoded)
    then show ?thesis by simp
  qed
qed

text \<open>
  An exception of \<^verbatim>\<open>json.loads\<close> other than \<^verbatim>\<open>JSONDecodeError\<close> (a body that is not
  valid UTF-8 raises \<^verbatim>\<open>UnicodeDecodeError\<close>) is taken by the second handler: the
  message is rejected without requeue, and again nothing reaches the store.
\<close>

lemma other_decode_failure_rejected:
  assumes "env_loads ev body = Inl e" and "e \<noteq> JSONDecodeError"
  shows "sent (on_message_received ev w tag body) = sent w @ [BasicNack tag False]
    \<and> db (on_message_received ev w tag body) = db w"
  using assms
  by (simp add: on_message_received_def process_message_def log_msg_def basic_nack_def)




text \<open>
  Claim C1, as stated, fails: the body \<^verbatim>\<open>5\<close> decodes, to the int 5, and
  \<^verbatim>\<open>'station_id' not in 5\<close> raises \<^verbatim>\<open>TypeError\<close> in the validator. The second handler
  takes it: the message is rejected without requeue and the persister is never called.
\<close>

theorem decoded_scalar_is_rejected:
  "env_loads sample_env ''5'' = Inr (JInt 5)
   \<and> sent (on_message_received sample_env healthy_world 7 ''5'') = [BasicNack 7 False]
   \<and> calls (db (on_message_received sample_env healthy_world 7 ''5'')) = []"
  by (simp add: sample_env_def sample_loads_scalar on_message_received_def process_message_def
      validate_payload_def log_msg_def basic_nack_def healthy_world_def)

text \<open>
  Claim C1, amended. For every message whose body decodes to a payload that the
  validator classifies without raising (every JSON object is one), the callback calls
  the persister and then sends the ack, whatever boolean the persister returned: the
  final world is the persister's, with the ack frame and its log record appended.
\<close>

theorem on_message_received_acks_after_persist:
  assumes "env_loads ev body = Inr payload"
    and "validate_payload (env_float_repr ev) payload = Inr (is_valid, st, reason)"
  shows "\<exists>stored conn' lg'.
      insert_into_db (env_now ev) (db w)
        (logs w @ [(Info, LogReceived tag), (Info, LogData payload),
                   (if is_valid then (Info, LogValidationOk)
                    else (Warning, LogValidationFailed reason))])
        payload st reason = Inr (stored, conn', lg')
    \<and> on_message_received ev w tag body =
        \<lparr>sent = sent w @ [BasicAck tag], db = conn', logs = lg' @ [(Info, LogAckSent)]\<rparr>"
proof -
  let ?lg = "logs w @ [(Info, LogReceived tag), (Info, LogData payload),
                   (if is_valid then (Info, LogValidationOk)
                    else (Warning, LogValidationFailed reason))]"
  obtain stored conn' lg' where
    ins: "insert_into_db (env_now ev) (db w) ?lg payload st reason = Inr (stored, conn', lg')"
    using insert_into_db_returns by blast
  have "on_message_received ev w tag body =
        \<lparr>sent = sent w @ [BasicAck tag], db = conn', logs = lg' @ [(Info, LogAckSent)]\<rparr>"
    using assms ins by (rule on_message_received_decoded)
  with ins show ?thesis by blast
qed

text \<open>
  A valid reading delivered while every write to the store fails: the persister returns
  false, nothing is stored, and the ack is sent all the same.
\<close>

theorem on_message_received_acks_after_persist_witness:
  "env_loads sample_env body_valid = Inr payload_valid
   \<and> validate_payload (env_float_repr sample_env) payload_valid = Inr (True, ''ok'', [])
   \<and> sent (on_message_received sample_env failing_world 7 body_valid) = [BasicAck 7]
   \<and> rows (db (on_message_received sample_env failing_world 7 body_valid)) = []"
proof -
  have h1: "env_loads sample_env body_valid = Inr payload_valid"
    by (simp add: sample_env_def sample_loads_valid)
  have h2: "validate_payload (env_float_repr sample_env) payload_valid = Inr (True, ''ok'', [])"
    by (rule payload_valid_ok)
  from on_message_received_acks_after_persist [OF h1 h2, of failing_world 7]
  obtain stored conn' lg' where
    ins: "insert_into_db (env_now sample_env) (db failing_world)
        (logs failing_world @ [(Info, LogReceived 7), (Info, LogData payload_valid),
                   (if True then (Info, LogValidationOk)
                    else (Warning, LogValidationFailed []))])
        payload_valid ''ok'' [] = Inr (stored, conn', lg')"
    and omr: "on_message_received sample_env failing_world 7 body_valid =
        \<lparr>sent = sent failing_world @ [BasicAck 7], db = conn', logs = lg' @ [(Info, LogAckSent)]\<rparr>"
    by blast
  have "rows conn' = []"
    using ins
    by (auto simp: payload_valid_def failing_world_def insert_into_db_rejected [OF _ refl])
  with omr h1 h2 show ?thesis
    by (simp add: failing_world_def)
qed

text \<open>On a dict the validator accepts exactly when the status it returns is \<open>ok\<close>.\<close>

lemma validate_payload_status_ok:
  assumes "validate_payload fr (JObject kvs) = Inr (is_valid, st, reason)"
  shows "(st = ''ok'') = is_valid"
  using assms
  by (auto simp: validate_payload_def split: if_splits option.splits)

text \<open>
  Claim C4, as stated, fails twice. The body \<^verbatim>\<open>[]\<close> decodes, to an empty list, which
  the validator classifies as \<open>invalid\<close>; \<^verbatim>\<open>payload.get\<close> then raises inside the
  persister, which returns false: the message is acknowledged and no row is stored,
  though the store accepts every row. And a valid reading delivered while the store
  rejects every write is acknowledged with no row stored.
\<close>

theorem decoded_message_without_row:
  "env_loads sample_env ''[]'' = Inr (JArray [])
   \<and> sent (on_message_received sample_env healthy_world 7 ''[]'') = [BasicAck 7]
   \<and> rows (db (on_message_received sample_env healthy_world 7 ''[]'')) = []
   \<and> env_loads sample_env body_valid = Inr payload_valid
   \<and> sent (on_message_received sample_env failing_world 8 body_valid) = [BasicAck 8]
   \<and> rows (db (on_message_received sample_env failing_world 8 body_valid)) = []"
proof -
  have a: "on_message_received sample_env healthy_world 7 ''[]'' =
      \<lparr>sent = [BasicAck 7],
       db = \<lparr>db_open = True, accepts = (\<lambda>r. True), rows = [], calls = [Cursor]\<rparr>,
       logs = [(Info, LogReceived 7), (Info, LogData (JArray [])),
               (Warning, LogValidationFailed ''falta station_id''),
               (Error, LogInsertError AttributeError), (Info, LogAckSent)]\<rparr>"
    by (simp add: sample_env_def sample_loads_list on_message_received_def process_message_def
        validate_payload_def log_msg_def basic_ack_def healthy_world_def
        insert_into_db_not_dict)
  have l: "env_loads sample_env body_valid = Inr payload_valid"
    by (simp add: sample_env_def sample_loads_valid)
  have v: "validate_payload (env_float_repr sample_env) payload_valid = Inr (True, ''ok'', [])"
    by (rule payload_valid_ok)
  obtain stored conn' lg' where
    ins: "insert_into_db (env_now sample_env) (db failing_world)
        (logs failing_world @ [(Info, LogReceived 8), (Info, LogData payload_valid),
                   (if True then (Info, LogValidationOk)
                    else (Warning, LogValidationFailed []))])
        payload_valid ''ok'' [] = Inr (stored, conn', lg')"
    using insert_into_db_returns by blast
  have none: "rows conn' = []"
    using ins
    by (auto simp: payload_valid_def failing_world_def insert_into_db_rejected [OF _ refl])
  have "on_message_received sample_env failing_world 8 body_valid =
        \<lparr>sent = sent failing_world @ [BasicAck 8], db = conn', logs = lg' @ [(Info, LogAckSent)]\<rparr>"
    using l v ins by (rule on_message_received_decoded)
  with none have b: "rows (db (on_message_received sample_env failing_world 8 body_valid)) = []
      \<and> sent (on_message_received sample_env failing_world 8 body_valid) = [BasicAck 8]"
    by (simp add: failing_world_def)
  show ?thesis
    using a b by (simp add: sample_env_def sample_loads_list sample_loads_valid)
qed

text \<open>
  Claim C4, amended. Every message whose body decodes to a JSON object, delivered
  while the connection is open and the store accepts the row built from it, produces
  exactly one stored record, regardless of the validation outcome: its
  \<open>raw_payload\<close> is the payload verbatim and its status is \<open>ok\<close> when the payload is
  valid and the rejection reason otherwise.
\<close>

theorem one_row_per_object_message:
  assumes "env_loads ev body = Inr (JObject kvs)"
    and "validate_payload (env_float_repr ev) (JObject kvs) = Inr (is_valid, st, reason)"
    and "db_open (db w)"
    and "accepts (db w) (row_of_dict (env_now ev) kvs (if is_valid then ''ok'' else reason))"
  shows "\<exists>r. rows (db (on_message_received ev w tag body)) = rows (db w) @ [r]
    \<and> col_raw_payload r = JObject kvs
    \<and> col_status r = (if is_valid then ''ok'' else reason)"
proof -
  define r where "r = row_of_dict (env_now ev) kvs (if st = ''ok'' then st else reason)"
  have ok: "(st = ''ok'') = is_valid"
    using assms(2) by (rule validate_payload_status_ok)
  then have r_eq: "r = row_of_dict (env_now ev) kvs (if is_valid then ''ok'' else reason)"
    by (auto simp: r_def)
  with assms(4) have acc: "accepts (db w) r" by simp
  from on_message_received_decoded
    [OF assms(1,2) insert_into_db_stored [OF assms(3) r_def acc]]
  have "rows (db (on_message_received ev w tag body)) = rows (db w) @ [r]"
    by simp
  moreover have "col_raw_payload r = JObject kvs"
    by (simp add: r_def row_of_dict_def)
  moreover have "col_status r = (if is_valid then ''ok'' else reason)"
    by (simp add: r_eq row_of_dict_def)
  ultimately show ?thesis by blast
qed

text \<open>
  The specification's example: station \<open>station_2\<close> with temperature 500 is stored once,
  with the payload and the rejection reason as status.
\<close>

theorem one_row_per_object_message_witness:
  "env_loads sample_env body_hot = Inr payload_hot
   \<and> validate_payload (env_float_repr sample_env) payload_hot =
       Inr (False, ''out_of_range'',
            ''temperatura 500'' @ [degree_sign] @ ''C fuera de rango [-100, 100]'')
   \<and> db_open (db healthy_world)
   \<and> (\<exists>r. rows (db (on_message_received sample_env healthy_world 7 body_hot)) = [r]
        \<and> col_raw_payload r = payload_hot
        \<and> col_status r = ''temperatura 500'' @ [degree_sign] @ ''C fuera de rango [-100, 100]'')"
proof -
  have h1: "env_loads sample_env body_hot = Inr (JObject [(''station_id'', JString ''station_2''),
             (''temperature_c'', JInt 500), (''humidity_percent'', JInt 50)])"
    by (simp add: sample_env_def sample_loads_def body_valid_def body_hot_def quoted_def
        payload_hot_def)
  have h2: "validate_payload (env_float_repr sample_env)
      (JObject [(''station_id'', JString ''station_2''),
             (''temperature_c'', JInt 500), (''humidity_percent'', JInt 50)]) =
       Inr (False, ''out_of_range'',
            ''temperatura 500'' @ [degree_sign] @ ''C fuera de rango [-100, 100]'')"
    by (simp add: validate_payload_def str_int_def str_nat.simps digit_char_def)
  have h3: "db_open (db healthy_world)"
    by (simp add: healthy_world_def)
  have h4: "accepts (db healthy_world) (row_of_dict (env_now sample_env)
      [(''station_id'', JString ''station_2''),
             (''temperature_c'', JInt 500), (''humidity_percent'', JInt 50)]
      (if False then ''ok'' else ''temperatura 500'' @ [degree_sign] @ ''C fuera de rango [-100, 100]''))"
    by (simp add: healthy_world_def)
  from one_row_per_object_message [OF h1 h2 h3 h4, of 7] h1 h2 h3
  show ?thesis
    by (simp add: payload_hot_def healthy_world_def)
qed

section \<open>The generator's payloads are valid\<close>

lemma round_half_even_bounds:
  assumes "of_int lo \<le> y" and "y \<le> of_int hi"
  shows "lo \<le> round_half_even y \<and> round_half_even y \<le> hi"
proof -
  have lo: "lo \<le> \<lfloor>y\<rfloor>"
    using assms(1) by (simp add: le_floor_iff)
  have hi: "\<lfloor>y\<rfloor> \<le> hi"
    using assms(2) floor_mono [of y "of_int hi"] by simp
  have up: "\<lfloor>y\<rfloor> + 1 \<le> hi" if "y - of_int \<lfloor>y\<rfloor> \<noteq> 0"
  proof (rule ccontr)
    assume "\<not> \<lfloor>y\<rfloor> + 1 \<le> hi"
    with hi have "\<lfloor>y\<rfloor> = hi" by simp
    then have "of_int hi \<le> y"
      using of_int_floor_le [of y] by simp
    with assms(2) have "y = of_int hi" by simp
    with that show False by simp
  qed
  show ?thesis
    using lo hi up by (auto simp: round_half_even_def Let_def)
qed

lemma py_round_bounds:
  assumes "nearest_float to_double"
    and "of_int lo \<le> x" and "x \<le> of_int hi"
    and "\<bar>lo\<bar> \<le> 2 ^ 53" and "\<bar>hi\<bar> \<le> 2 ^ 53"
  shows "of_int lo \<le> py_round to_double x n \<and> py_round to_double x n \<le> of_int hi"
proof -
  let ?p = "10 ^ n :: rat"
  let ?r = "round_half_even (x * ?p)"
  have p: "0 < ?p" by simp
  have mono: "\<And>a b. a \<le> b \<Longrightarrow> to_double a \<le> to_double b"
    and exact: "\<And>i::int. \<bar>i\<bar> \<le> 2 ^ 53 \<Longrightarrow> to_double (of_int i) = of_int i"
    using assms(1) by (simp_all add: nearest_float_def)
  have "of_int (lo * 10 ^ n) \<le> x * ?p" and "x * ?p \<le> of_int (hi * 10 ^ n)"
    using assms(2,3) by (simp_all add: mult_right_mono)
  then have "lo * 10 ^ n \<le> ?r \<and> ?r \<le> hi * 10 ^ n"
    by (rule round_half_even_bounds)
  then have "of_int (lo * 10 ^ n) \<le> (of_int ?r :: rat)" and "(of_int ?r :: rat) \<le> of_int (hi * 10 ^ n)"
    by (simp_all only: of_int_le_iff)
  then have "of_int lo * ?p \<le> of_int ?r" and "of_int ?r \<le> of_int hi * ?p"
    by simp_all
  with p have "of_int lo \<le> of_int ?r / ?p" and "of_int ?r / ?p \<le> of_int hi"
    by (simp_all add: pos_le_divide_eq pos_divide_le_eq)
  then have "to_double (of_int lo) \<le> to_double (of_int ?r / ?p)"
    and "to_double (of_int ?r / ?p) \<le> to_double (of_int hi)"
    by (simp_all only: mono)
  then show ?thesis
    by (simp add: py_round_def exact [OF assms(4)] exact [OF assms(5)])
qed

text \<open>
  Claim C9. Every payload the generator produces is accepted by the validator with
  status \<open>ok\<close>: for every draw within the ranges the random library documents, all five
  fields are present, and the rounded temperature, humidity and wind stay within
  \<open>[-10, 40]\<close>, \<open>[20, 95]\<close> and \<open>[0, 25]\<close>, inside the validator's ranges. Rounding to
  the nearest float enters through its monotonicity and its exactness on small
  integers.
\<close>

theorem generated_payload_is_valid:
  assumes "nearest_float to_double" and "library_draws d"
  shows "validate_payload fr (generate_weather_data to_double now d) = Inr (True, ''ok'', [])
    \<and> (\<exists>n t h w.
         generate_weather_data to_double now d =
           JObject [(''station_id'', JString (''station_'' @ str_int n)),
                    (''timestamp'', JString now),
                    (''temperature_c'', JFloat (Finite t)),
                    (''humidity_percent'', JFloat (Finite h)),
                    (''wind_speed_ms'', JFloat (Finite w))]
         \<and> 1 \<le> n \<and> n \<le> 5
         \<and> - 10 \<le> t \<and> t \<le> 40 \<and> 20 \<le> h \<and> h \<le> 95 \<and> 0 \<le> w \<and> w \<le> 25)"
proof -
  have n: "1 \<le> randint_1_5 d" "randint_1_5 d \<le> 5"
    and t: "of_int (- 10) \<le> uniform_temp d" "uniform_temp d \<le> of_int 40"
    and h: "of_int 20 \<le> uniform_hum d" "uniform_hum d \<le> of_int 95"
    and w: "of_int 0 \<le> uniform_wind d" "uniform_wind d \<le> of_int 25"
    using assms(2) by (simp_all add: library_draws_def)
  have "of_int (- 10) \<le> py_round to_double (uniform_temp d) 2
      \<and> py_round to_double (uniform_temp d) 2 \<le> of_int 40"
    using assms(1) t by (rule py_round_bounds) simp_all
  then have tb: "- 10 \<le> py_round to_double (uniform_temp d) 2"
      "py_round to_double (uniform_temp d) 2 \<le> 40"
    by simp_all
  have "of_int 20 \<le> py_round to_double (uniform_hum d) 2
      \<and> py_round to_double (uniform_hum d) 2 \<le> of_int 95"
    using assms(1) h by (rule py_round_bounds) simp_all
  then have hb: "20 \<le> py_round to_double (uniform_hum d) 2"
      "py_round to_double (uniform_hum d) 2 \<le> 95"
    by simp_all
  have "of_int 0 \<le> py_round to_double (uniform_wind d) 3
      \<and> py_round to_double (uniform_wind d) 3 \<le> of_int 25"
    using assms(1) w by (rule py_round_bounds) simp_all
  then have wb: "0 \<le> py_round to_double (uniform_wind d) 3"
      "py_round to_double (uniform_wind d) 3 \<le> 25"
    by simp_all
  have valid: "validate_payload fr (generate_weather_data to_double now d) = Inr (True, ''ok'', [])"
    using tb hb wb
    by (simp add: generate_weather_data_def validate_payload_def Let_def)
  have shape: "generate_weather_data to_double now d =
           JObject [(''station_id'', JString (''station_'' @ str_int (randint_1_5 d))),
                    (''timestamp'', JString now),
                    (''temperature_c'', JFloat (Finite (py_round to_double (uniform_temp d) 2))),
                    (''humidity_percent'', JFloat (Finite (py_round to_double (uniform_hum d) 2))),
                    (''wind_speed_ms'', JFloat (Finite (py_round to_double (uniform_wind d) 3)))]"
    by (simp add: generate_weather_data_def Let_def)
  from valid shape n tb hb wb show ?thesis by blast
qed

theorem generated_payload_is_valid_witness:
  "nearest_float (\<lambda>q. q)
   \<and> library_draws \<lparr>randint_1_5 = 3, uniform_temp = 45 / 2, uniform_hum = 55, uniform_wind = 16 / 5\<rparr>
   \<and> validate_payload (\<lambda>f. ''?'')
        (generate_weather_data (\<lambda>q. q) ''2024-05-01T12:00:00+00:00''
           \<lparr>randint_1_5 = 3, uniform_temp = 45 / 2, uniform_hum = 55, uniform_wind = 16 / 5\<rparr>)
       = Inr (True, ''ok'', [])
   \<and> (\<exists>n t h w.
         generate_weather_data (\<lambda>q. q) ''2024-05-01T12:00:00+00:00''
           \<lparr>randint_1_5 = 3, uniform_temp = 45 / 2, uniform_hum = 55, uniform_wind = 16 / 5\<rparr> =
           JObject [(''station_id'', JString (''station_'' @ str_int n)),
                    (''timestamp'', JString ''2024-05-01T12:00:00+00:00''),
                    (''temperature_c'', JFloat (Finite t)),
                    (''humidity_percent'', JFloat (Finite h)),
                    (''wind_speed_ms'', JFloat (Finite w))]
         \<and> 1 \<le> n \<and> n \<le> 5
         \<and> - 10 \<le> t \<and> t \<le> 40 \<and> 20 \<le> h \<and> h \<le> 95 \<and> 0 \<le> w \<and> w \<le> 25)"
proof -
  have h1: "nearest_float (\<lambda>q. q)"
    by (simp add: nearest_float_def)
  have h2: "library_draws
      \<lparr>randint_1_5 = 3, uniform_temp = 45 / 2, uniform_hum = 55, uniform_wind = 16 / 5\<rparr>"
    by (simp add: library_draws_def)
  from generated_payload_is_valid [OF h1 h2, of "\<lambda>f. ''?''" "''2024-05-01T12:00:00+00:00''"] h1 h2
  show ?thesis
    by (intro conjI) (rule h1, rule h2, erule conjunct1, erule conjunct2)
qed

end
